theory Spec2Isabelle
  imports Main "HOL-Library.Word"
begin

unbundle bit_operations_syntax

section \<open>Interrupt identifiers (\<open>Inc/NVIC_Interface.h\<close>)\<close>

text \<open>
  \<open>IRQn_Type\<close> is a C enumeration. An enumerator without an initialiser is one more than
  its predecessor, so the explicit \<open>CAN2_TX = 63\<close>, \<open>FPU = 81\<close>, \<open>SPI4 = 84\<close>,
  \<open>SAI1 = 87\<close> and \<open>SAI2 = 91\<close> leave gaps. \<open>IRQn_value\<close> gives each enumerator its
  value. The type has 86 constructors; of the derived material only \<open>size\<close> is kept.
\<close>

datatype (plugins only: size) IRQn_Type =
    WWDG
  | PVD
  | TAMP_STAMP
  | RTC_WKUP
  | FLASH
  | RCC
  | EXTI0
  | EXTI1
  | EXTI2
  | EXTI3
  | EXTI4
  | DMA1_Stream0
  | DMA1_Stream1
  | DMA1_Stream2
  | DMA1_Stream3
  | DMA1_Stream4
  | DMA1_Stream5
  | DMA1_Stream6
  | ADC
  | CAN1_TX
  | CAN1_RX0
  | CAN1_RX1
  | CAN1_SCE
  | EXTI9_5
  | TIM1_BRK_TIM9
  | TIM1_UP_TIM10
  | TIM1_TRG_COM_TIM11
  | TIM1_CC
  | TIM2
  | TIM3
  | TIM4
  | I2C1_EV
  | I2C1_ER
  | I2C2_EV
  | I2C2_ER
  | SPI1
  | SPI2
  | USART1
  | USART2
  | USART3
  | EXTI5_10
  | RTC_Alarm
  | OTG_FS_WKUP
  | TIM8_BRK_TIM12
  | TIM8_UP_TIM13
  | TIM8_TRG_COM_TIM14
  | TIM8_CC
  | DMA1_Stream7
  | FMC
  | SDIO
  | TIM5
  | SPI3
  | UART4
  | UART5
  | TIM6_DAC
  | TIM7
  | DMA2_Stream0
  | DMA2_Stream1
  | DMA2_Stream2
  | DMA2_Stream3
  | DMA2_Stream4
  | CAN2_TX
  | CAN2_RX0
  | CAN2_RX1
  | CAN2_SCE
  | OTG_FS
  | DMA2_Stream5
  | DMA2_Stream6
  | DMA2_Stream7
  | USART6
  | I2C3_EV
  | I2C3_ER
  | OTG_HS_EP1_OUT
  | OTG_HS_EP1_IN
  | OTG_HS_WKUP
  | OTG_HS
  | DCMI
  | FPU
  | SPI4
  | SAI1
  | SAI2
  | QuadSPI
  | HDMI_CEC
  | SPDIF_Rx
  | FMPI2C1
  | FMPI2C1_error

primrec IRQn_value :: "IRQn_Type \<Rightarrow> nat" where
  "IRQn_value WWDG = 0"
| "IRQn_value PVD = 1"
| "IRQn_value TAMP_STAMP = 2"
| "IRQn_value RTC_WKUP = 3"
| "IRQn_value FLASH = 4"
| "IRQn_value RCC = 5"
| "IRQn_value EXTI0 = 6"
| "IRQn_value EXTI1 = 7"
| "IRQn_value EXTI2 = 8"
| "IRQn_value EXTI3 = 9"
| "IRQn_value EXTI4 = 10"
| "IRQn_value DMA1_Stream0 = 11"
| "IRQn_value DMA1_Stream1 = 12"
| "IRQn_value DMA1_Stream2 = 13"
| "IRQn_value DMA1_Stream3 = 14"
| "IRQn_value DMA1_Stream4 = 15"
| "IRQn_value DMA1_Stream5 = 16"
| "IRQn_value DMA1_Stream6 = 17"
| "IRQn_value ADC = 18"
| "IRQn_value CAN1_TX = 19"
| "IRQn_value CAN1_RX0 = 20"
| "IRQn_value CAN1_RX1 = 21"
| "IRQn_value CAN1_SCE = 22"
| "IRQn_value EXTI9_5 = 23"
| "IRQn_value TIM1_BRK_TIM9 = 24"
| "IRQn_value TIM1_UP_TIM10 = 25"
| "IRQn_value TIM1_TRG_COM_TIM11 = 26"
| "IRQn_value TIM1_CC = 27"
| "IRQn_value TIM2 = 28"
| "IRQn_value TIM3 = 29"
| "IRQn_value TIM4 = 30"
| "IRQn_value I2C1_EV = 31"
| "IRQn_value I2C1_ER = 32"
| "IRQn_value I2C2_EV = 33"
| "IRQn_value I2C2_ER = 34"
| "IRQn_value SPI1 = 35"
| "IRQn_value SPI2 = 36"
| "IRQn_value USART1 = 37"
| "IRQn_value USART2 = 38"
| "IRQn_value USART3 = 39"
| "IRQn_value EXTI5_10 = 40"
| "IRQn_value RTC_Alarm = 41"
| "IRQn_value OTG_FS_WKUP = 42"
| "IRQn_value TIM8_BRK_TIM12 = 43"
| "IRQn_value TIM8_UP_TIM13 = 44"
| "IRQn_value TIM8_TRG_COM_TIM14 = 45"
| "IRQn_value TIM8_CC = 46"
| "IRQn_value DMA1_Stream7 = 47"
| "IRQn_value FMC = 48"
| "IRQn_value SDIO = 49"
| "IRQn_value TIM5 = 50"
| "IRQn_value SPI3 = 51"
| "IRQn_value UART4 = 52"
| "IRQn_value UART5 = 53"
| "IRQn_value TIM6_DAC = 54"
| "IRQn_value TIM7 = 55"
| "IRQn_value DMA2_Stream0 = 56"
| "IRQn_value DMA2_Stream1 = 57"
| "IRQn_value DMA2_Stream2 = 58"
| "IRQn_value DMA2_Stream3 = 59"
| "IRQn_value DMA2_Stream4 = 60"
| "IRQn_value CAN2_TX = 63"
| "IRQn_value CAN2_RX0 = 64"
| "IRQn_value CAN2_RX1 = 65"
| "IRQn_value CAN2_SCE = 66"
| "IRQn_value OTG_FS = 67"
| "IRQn_value DMA2_Stream5 = 68"
| "IRQn_value DMA2_Stream6 = 69"
| "IRQn_value DMA2_Stream7 = 70"
| "IRQn_value USART6 = 71"
| "IRQn_value I2C3_EV = 72"
| "IRQn_value I2C3_ER = 73"
| "IRQn_value OTG_HS_EP1_OUT = 74"
| "IRQn_value OTG_HS_EP1_IN = 75"
| "IRQn_value OTG_HS_WKUP = 76"
| "IRQn_value OTG_HS = 77"
| "IRQn_value DCMI = 78"
| "IRQn_value FPU = 81"
| "IRQn_value SPI4 = 84"
| "IRQn_value SAI1 = 87"
| "IRQn_value SAI2 = 91"
| "IRQn_value QuadSPI = 92"
| "IRQn_value HDMI_CEC = 93"
| "IRQn_value SPDIF_Rx = 94"
| "IRQn_value FMPI2C1 = 95"
| "IRQn_value FMPI2C1_error = 96"

type_synonym u8 = "8 word"
type_synonym u32 = "32 word"

text \<open>
  The functions divide the identifier by an \<open>unsigned\<close> constant (\<open>IRQn / 32U\<close>,
  \<open>IRQn % 4U\<close>), so the enumerator is first converted to a 32-bit unsigned value.
\<close>

definition IRQn_u32 :: "IRQn_Type \<Rightarrow> u32" where
  "IRQn_u32 IRQn = of_nat (IRQn_value IRQn)"

section \<open>The register block\<close>

text \<open>
  The driver reaches the controller through \<open>NVIC->ISER[..]\<close>, \<open>NVIC->ICER[..]\<close>,
  \<open>NVIC->ISPR[..]\<close>, \<open>NVIC->ICPR[..]\<close>, \<open>NVIC->IABR[..]\<close> and \<open>NVIC->IPR[..]\<close>. The
  declaration of that register block is in \<open>LIB/STM32F446xx.h\<close>, which is not among the
  sources, and what an access does is a matter of the hardware; both are taken from the
  data model of the specification.
\<close>

text \<open>
  Modelled from the spec: the state behind the register block (\<open>LIB/STM32F446xx.h\<close> is
  missing). There is one logical enable bit and one logical pending bit per interrupt,
  32 to a register, a read-only active bit-array, and 32-bit priority registers packing
  four 8-bit fields each. Arrays are indexed by \<open>nat\<close>.
\<close>

record nvic =
  enable_bits :: "nat \<Rightarrow> u32"
  pending_bits :: "nat \<Rightarrow> u32"
  active_bits :: "nat \<Rightarrow> u32"
  priority_regs :: "nat \<Rightarrow> u32"

text \<open>
  Modelled from the spec: a write to the enable array \<open>ISER\<close> (the register semantics
  are missing from the sources). Every 1 bit written sets the enable bit at its position,
  a 0 bit changes nothing.
\<close>

definition write_ISER :: "nat \<Rightarrow> u32 \<Rightarrow> nvic \<Rightarrow> nvic" where
  "write_ISER n v s = s\<lparr>enable_bits := (enable_bits s)(n := enable_bits s n OR v)\<rparr>"

text \<open>
  Modelled from the spec: a write to the disable array \<open>ICER\<close>, a register of its own.
  Every 1 bit written clears the same logical enable bit, a 0 bit changes nothing.
\<close>

definition write_ICER :: "nat \<Rightarrow> u32 \<Rightarrow> nvic \<Rightarrow> nvic" where
  "write_ICER n v s = s\<lparr>enable_bits := (enable_bits s)(n := enable_bits s n AND NOT v)\<rparr>"

text \<open>
  Modelled from the spec: writes to the set-pending array \<open>ISPR\<close> and to the
  clear-pending array \<open>ICPR\<close>, which set and clear the logical pending bits in the same
  way.
\<close>

definition write_ISPR :: "nat \<Rightarrow> u32 \<Rightarrow> nvic \<Rightarrow> nvic" where
  "write_ISPR n v s = s\<lparr>pending_bits := (pending_bits s)(n := pending_bits s n OR v)\<rparr>"

definition write_ICPR :: "nat \<Rightarrow> u32 \<Rightarrow> nvic \<Rightarrow> nvic" where
  "write_ICPR n v s = s\<lparr>pending_bits := (pending_bits s)(n := pending_bits s n AND NOT v)\<rparr>"

text \<open>
  Modelled from the spec: reads of the set-pending array \<open>ISPR\<close> (the current pending
  bits), of the active array \<open>IABR\<close> and of a priority register \<open>IPR\<close>. A read changes
  nothing; it hands the state back next to the value, so that a function that reads a
  register is a state transformer like one that writes.
\<close>

definition read_ISPR :: "nat \<Rightarrow> nvic \<Rightarrow> u32 \<times> nvic" where
  "read_ISPR n s = (pending_bits s n, s)"

definition read_IABR :: "nat \<Rightarrow> nvic \<Rightarrow> u32 \<times> nvic" where
  "read_IABR n s = (active_bits s n, s)"

definition read_IPR :: "nat \<Rightarrow> nvic \<Rightarrow> u32 \<times> nvic" where
  "read_IPR n s = (priority_regs s n, s)"

text \<open>
  Modelled from the spec: a write to a priority register \<open>IPR\<close>, an ordinary read/write
  register: the word written replaces the content.
\<close>

definition write_IPR :: "nat \<Rightarrow> u32 \<Rightarrow> nvic \<Rightarrow> nvic" where
  "write_IPR n v s = s\<lparr>priority_regs := (priority_regs s)(n := v)\<rparr>"

text \<open>The register block with every register zero, its content after a reset.\<close>

definition NVIC_reset :: nvic where
  "NVIC_reset = \<lparr>enable_bits = (\<lambda>_. 0), pending_bits = (\<lambda>_. 0),
     active_bits = (\<lambda>_. 0), priority_regs = (\<lambda>_. 0)\<rparr>"

section \<open>The driver (\<open>Src/NVIC_Program.c\<close>)\<close>

text \<open>
  Every bit-array function starts with the same two lines,
  \<^verbatim>\<open>uint8_t RegNum = (uint8_t)(IRQn / 32U); uint8_t BitNum = (uint8_t)(IRQn % 32U);\<close>
  and both priority functions with
  \<^verbatim>\<open>RegIndex = (uint8_t)(IRQn / 4U); PriorityPos = (uint8_t)((IRQn % 4U) * 8U);\<close>
  They are defined once, under the names of the local variables.
\<close>

definition RegNum :: "IRQn_Type \<Rightarrow> u8" where
  "RegNum IRQn = ucast (IRQn_u32 IRQn div 32)"

definition BitNum :: "IRQn_Type \<Rightarrow> u8" where
  "BitNum IRQn = ucast (IRQn_u32 IRQn mod 32)"

definition RegIndex :: "IRQn_Type \<Rightarrow> u8" where
  "RegIndex IRQn = ucast (IRQn_u32 IRQn div 4)"

definition PriorityPos :: "IRQn_Type \<Rightarrow> u8" where
  "PriorityPos IRQn = ucast ((IRQn_u32 IRQn mod 4) * 8)"

text \<open>\<^verbatim>\<open>NVIC->ISER[RegNum] = (uint32_t)(1UL << BitNum);\<close>\<close>

definition NVIC_EnableIRQ :: "IRQn_Type \<Rightarrow> nvic \<Rightarrow> nvic" where
  "NVIC_EnableIRQ IRQn s =
     write_ISER (unat (RegNum IRQn)) (push_bit (unat (BitNum IRQn)) 1) s"

text \<open>\<^verbatim>\<open>NVIC->ICER[RegNum] = (uint32_t)(1UL << BitNum);\<close>\<close>

definition NVIC_DisableIRQ :: "IRQn_Type \<Rightarrow> nvic \<Rightarrow> nvic" where
  "NVIC_DisableIRQ IRQn s =
     write_ICER (unat (RegNum IRQn)) (push_bit (unat (BitNum IRQn)) 1) s"

text \<open>\<^verbatim>\<open>NVIC->ISPR[RegNum] = (uint32_t)(1UL << BitNum);\<close>\<close>

definition NVIC_SetPendingIRQ :: "IRQn_Type \<Rightarrow> nvic \<Rightarrow> nvic" where
  "NVIC_SetPendingIRQ IRQn s =
     write_ISPR (unat (RegNum IRQn)) (push_bit (unat (BitNum IRQn)) 1) s"

text \<open>\<^verbatim>\<open>NVIC->ICPR[RegNum] = (uint32_t)(1UL << BitNum);\<close>\<close>

definition NVIC_ClearPendingIRQ :: "IRQn_Type \<Rightarrow> nvic \<Rightarrow> nvic" where
  "NVIC_ClearPendingIRQ IRQn s =
     write_ICPR (unat (RegNum IRQn)) (push_bit (unat (BitNum IRQn)) 1) s"

text \<open>
  \<^verbatim>\<open>uint8_t PendingStatus = 0U;
  PendingStatus=(NVIC->ISPR[RegNum] & (1UL << BitNum)) ;
  return PendingStatus;\<close>
  The masked 32-bit word is assigned to a \<open>uint8_t\<close>: the conversion keeps its low
  eight bits.
\<close>

definition NVIC_GetPendingIRQ :: "IRQn_Type \<Rightarrow> nvic \<Rightarrow> u8 \<times> nvic" where
  "NVIC_GetPendingIRQ IRQn s =
     (let (v, s1) = read_ISPR (unat (RegNum IRQn)) s;
          PendingStatus = (ucast (v AND push_bit (unat (BitNum IRQn)) 1) :: u8)
      in (PendingStatus, s1))"

text \<open>
  \<^verbatim>\<open>if (priority > 15U) { priority = 15U; }
  else {
    RegIndex = ...; PriorityPos = ...;
    NVIC->IPR[RegIndex] &= ~(0xF0U << PriorityPos);
    NVIC->IPR[RegIndex] |= ((priority & 0xFU) << (PriorityPos + 4U));
  }\<close>
  The first branch only assigns to the parameter, which nothing reads afterwards. The
  second branch is two read-modify-write accesses. \<open>PriorityPos + 4U\<close> is computed in
  \<open>unsigned int\<close>.
\<close>

definition NVIC_SetPriority :: "IRQn_Type \<Rightarrow> u32 \<Rightarrow> nvic \<Rightarrow> nvic" where
  "NVIC_SetPriority IRQn priority s =
     (if priority > 15 then (let priority = (15 :: u32) in s)
      else
        (let (r1, s1) = read_IPR (unat (RegIndex IRQn)) s;
             s2 = write_IPR (unat (RegIndex IRQn))
                    (r1 AND NOT (push_bit (unat (PriorityPos IRQn)) 0xF0)) s1;
             (r2, s3) = read_IPR (unat (RegIndex IRQn)) s2
         in write_IPR (unat (RegIndex IRQn))
              (r2 OR push_bit (unat ((ucast (PriorityPos IRQn) :: u32) + 4)) (priority AND 0xF))
              s3))"

text \<open>\<^verbatim>\<open>priority = (NVIC->IPR[RegIndex] >> (PriorityPos + 4U)) & 0x0FU;\<close>\<close>

definition NVIC_GetPriority :: "IRQn_Type \<Rightarrow> nvic \<Rightarrow> u32 \<times> nvic" where
  "NVIC_GetPriority IRQn s =
     (let (v, s1) = read_IPR (unat (RegIndex IRQn)) s;
          priority = drop_bit (unat ((ucast (PriorityPos IRQn) :: u32) + 4)) v AND 0x0F
      in (priority, s1))"

text \<open>\<^verbatim>\<open>isActive = (uint8_t)((NVIC->IABR[RegNum] & (1UL << BitNum)) ? 1U : 0U);\<close>\<close>

definition NVIC_GetActive :: "IRQn_Type \<Rightarrow> nvic \<Rightarrow> u8 \<times> nvic" where
  "NVIC_GetActive IRQn s =
     (let (v, s1) = read_IABR (unat (RegNum IRQn)) s;
          isActive = (if v AND push_bit (unat (BitNum IRQn)) 1 \<noteq> 0 then 1 else 0 :: u8)
      in (isActive, s1))"

section \<open>Sequences of calls\<close>

text \<open>A caller's view of the driver: one constructor per function of the interface.\<close>

datatype call =
    EnableIRQ IRQn_Type
  | DisableIRQ IRQn_Type
  | SetPendingIRQ IRQn_Type
  | ClearPendingIRQ IRQn_Type
  | GetPendingIRQ IRQn_Type
  | SetPriority IRQn_Type u32
  | GetPriority IRQn_Type
  | GetActive IRQn_Type

fun run_call :: "call \<Rightarrow> nvic \<Rightarrow> nvic" where
  "run_call (EnableIRQ i) s = NVIC_EnableIRQ i s"
| "run_call (DisableIRQ i) s = NVIC_DisableIRQ i s"
| "run_call (SetPendingIRQ i) s = NVIC_SetPendingIRQ i s"
| "run_call (ClearPendingIRQ i) s = NVIC_ClearPendingIRQ i s"
| "run_call (GetPendingIRQ i) s = snd (NVIC_GetPendingIRQ i s)"
| "run_call (SetPriority i p) s = NVIC_SetPriority i p s"
| "run_call (GetPriority i) s = snd (NVIC_GetPriority i s)"
| "run_call (GetActive i) s = snd (NVIC_GetActive i s)"

fun run_calls :: "call list \<Rightarrow> nvic \<Rightarrow> nvic" where
  "run_calls [] s = s"
| "run_calls (c # cs) s = run_calls cs (run_call c s)"


section \<open>Index arithmetic\<close>

lemma IRQn_value_le: "IRQn_value i \<le> 96"
  by (cases i) simp_all

lemma IRQn_value_inj: "IRQn_value i = IRQn_value j \<Longrightarrow> i = j"
proof -
  define enumerator where "enumerator = map_of [
      (0 :: nat, WWDG), (1, PVD), (2, TAMP_STAMP), (3, RTC_WKUP), (4, FLASH), (5, RCC),
      (6, EXTI0), (7, EXTI1), (8, EXTI2), (9, EXTI3), (10, EXTI4), (11, DMA1_Stream0),
      (12, DMA1_Stream1), (13, DMA1_Stream2), (14, DMA1_Stream3), (15, DMA1_Stream4),
      (16, DMA1_Stream5), (17, DMA1_Stream6), (18, ADC), (19, CAN1_TX), (20, CAN1_RX0),
      (21, CAN1_RX1), (22, CAN1_SCE), (23, EXTI9_5), (24, TIM1_BRK_TIM9),
      (25, TIM1_UP_TIM10), (26, TIM1_TRG_COM_TIM11), (27, TIM1_CC), (28, TIM2), (29, TIM3),
      (30, TIM4), (31, I2C1_EV), (32, I2C1_ER), (33, I2C2_EV), (34, I2C2_ER), (35, SPI1),
      (36, SPI2), (37, USART1), (38, USART2), (39, USART3), (40, EXTI5_10),
      (41, RTC_Alarm), (42, OTG_FS_WKUP), (43, TIM8_BRK_TIM12), (44, TIM8_UP_TIM13),
      (45, TIM8_TRG_COM_TIM14), (46, TIM8_CC), (47, DMA1_Stream7), (48, FMC), (49, SDIO),
      (50, TIM5), (51, SPI3), (52, UART4), (53, UART5), (54, TIM6_DAC), (55, TIM7),
      (56, DMA2_Stream0), (57, DMA2_Stream1), (58, DMA2_Stream2), (59, DMA2_Stream3),
      (60, DMA2_Stream4), (63, CAN2_TX), (64, CAN2_RX0), (65, CAN2_RX1), (66, CAN2_SCE),
      (67, OTG_FS), (68, DMA2_Stream5), (69, DMA2_Stream6), (70, DMA2_Stream7),
      (71, USART6), (72, I2C3_EV), (73, I2C3_ER), (74, OTG_HS_EP1_OUT),
      (75, OTG_HS_EP1_IN), (76, OTG_HS_WKUP), (77, OTG_HS), (78, DCMI), (81, FPU),
      (84, SPI4), (87, SAI1), (91, SAI2), (92, QuadSPI), (93, HDMI_CEC), (94, SPDIF_Rx),
      (95, FMPI2C1), (96, FMPI2C1_error)]"
  have found: "enumerator (IRQn_value k) = Some k" for k
    by (cases k) (simp_all add: enumerator_def)
  assume "IRQn_value i = IRQn_value j"
  then have "enumerator (IRQn_value i) = enumerator (IRQn_value j)" by simp
  then show "i = j" by (simp add: found)
qed

lemma unat_IRQn_u32: "unat (IRQn_u32 i) = IRQn_value i"
  using IRQn_value_le [of i] by (simp add: IRQn_u32_def unat_of_nat)

lemma unat_RegNum: "unat (RegNum i) = IRQn_value i div 32"
  using IRQn_value_le [of i]
  by (simp add: RegNum_def unsigned_ucast_eq take_bit_nat_eq_self_iff unat_div unat_IRQn_u32)

lemma unat_BitNum: "unat (BitNum i) = IRQn_value i mod 32"
  using IRQn_value_le [of i]
  by (simp add: BitNum_def unsigned_ucast_eq take_bit_nat_eq_self_iff unat_mod unat_IRQn_u32)

lemma unat_RegIndex: "unat (RegIndex i) = IRQn_value i div 4"
  using IRQn_value_le [of i]
  by (simp add: RegIndex_def unsigned_ucast_eq take_bit_nat_eq_self_iff unat_div unat_IRQn_u32)

lemma unat_PriorityPos: "unat (PriorityPos i) = (IRQn_value i mod 4) * 8"
  using IRQn_value_le [of i]
  by (simp add: PriorityPos_def unsigned_ucast_eq take_bit_nat_eq_self_iff unat_mod unat_word_ariths unat_IRQn_u32)

lemma unat_PriorityPos_4:
  "unat ((ucast (PriorityPos i) :: u32) + 4) = (IRQn_value i mod 4) * 8 + 4"
proof -
  have "IRQn_value i mod 4 < 4" by simp
  then have small: "(IRQn_value i mod 4) * 8 < 32" by linarith
  then have "take_bit 32 ((IRQn_value i mod 4) * 8) = (IRQn_value i mod 4) * 8"
    by (simp add: take_bit_nat_eq_self_iff)
  with small show ?thesis
    by (simp add: unat_word_ariths unsigned_ucast_eq unat_PriorityPos)
qed


section \<open>Bit fields of a priority register\<close>

lemma xF0_eq: "(0xF0 :: u32) = push_bit 4 (mask 4)"
  by (simp add: mask_eq_exp_minus_1)

lemma xF_eq: "(0xF :: u32) = mask 4"
  by (simp add: mask_eq_exp_minus_1)

lemma le_15_and_mask: "p \<le> 15 \<Longrightarrow> p AND 0xF = (p :: u32)"
proof -
  assume "p \<le> 15"
  then have "p < 2 ^ 4" by (simp add: word_le_nat_alt word_less_nat_alt)
  then show ?thesis unfolding xF_eq by (rule less_mask_eq)
qed

lemma bit_field_update:
  "bit ((w AND NOT (push_bit k 0xF0)) OR push_bit (k + 4) (p AND 0xF) :: u32) n \<longleftrightarrow>
     (if k + 4 \<le> n \<and> n < k + 8 then n < 32 \<and> bit p (n - (k + 4)) else bit w n)"
  unfolding xF0_eq xF_eq
  by (auto simp: bit_simps dest: bit_imp_le_length)

lemma bit_field_read:
  "bit (drop_bit m x AND 0xF :: u32) n \<longleftrightarrow> n < 4 \<and> bit x (m + n)"
  unfolding xF_eq
  by (auto simp: bit_and_iff bit_drop_bit_eq bit_mask_iff add.commute dest: bit_imp_le_length)

lemma field_read_own:
  assumes "k + 8 \<le> 32" and "p \<le> 15"
  shows "drop_bit (k + 4) ((w AND NOT (push_bit k 0xF0)) OR push_bit (k + 4) (p AND 0xF)) AND 0xF
           = (p :: u32)"
proof -
  have "drop_bit (k + 4) ((w AND NOT (push_bit k 0xF0)) OR push_bit (k + 4) (p AND 0xF)) AND 0xF
          = drop_bit 0 p AND 0xF"
  proof (rule bit_word_eqI)
    fix n assume "n < LENGTH(32)"
    have "n < 4 \<Longrightarrow> k + 4 \<le> k + 4 + n \<and> k + 4 + n < k + 8 \<and> k + 4 + n < 32"
      using assms(1) by arith
    then show "bit (drop_bit (k + 4) ((w AND NOT (push_bit k 0xF0)) OR push_bit (k + 4) (p AND 0xF)) AND 0xF) n
        \<longleftrightarrow> bit (drop_bit 0 p AND 0xF) n"
      unfolding bit_field_read bit_field_update by auto
  qed
  with assms(2) show ?thesis by (simp add: le_15_and_mask)
qed

lemma field_read_other:
  assumes "a \<noteq> b"
  shows "drop_bit (8 * a + 4) ((w AND NOT (push_bit (8 * b) 0xF0)) OR push_bit (8 * b + 4) (q AND 0xF)) AND 0xF
           = drop_bit (8 * a + 4) (w :: u32) AND 0xF"
proof (rule bit_word_eqI)
  fix n assume "n < LENGTH(32)"
  have "n < 4 \<Longrightarrow> \<not> (8 * b + 4 \<le> 8 * a + 4 + n \<and> 8 * a + 4 + n < 8 * b + 8)"
    using assms by arith
  then show "bit (drop_bit (8 * a + 4) ((w AND NOT (push_bit (8 * b) 0xF0)) OR push_bit (8 * b + 4) (q AND 0xF)) AND 0xF) n
        \<longleftrightarrow> bit (drop_bit (8 * a + 4) w AND 0xF) n"
    unfolding bit_field_read bit_field_update by auto
qed

lemma field_update_idem:
  "(((w AND NOT (push_bit k 0xF0)) OR push_bit (k + 4) (p AND 0xF)) AND NOT (push_bit k 0xF0))
      OR push_bit (k + 4) (p AND 0xF)
   = (w AND NOT (push_bit k 0xF0)) OR push_bit (k + 4) (p AND 0xF :: u32)"
  by (rule bit_word_eqI) (auto simp: bit_or_iff bit_and_iff bit_not_iff)


lemma succ_bit_pos: "(v + 1) mod 32 \<noteq> v mod (32 :: nat)"
  by (auto simp: mod_Suc)

lemma pred_bit_pos: "(v + 31) mod 32 \<noteq> v mod (32 :: nat)"
proof
  assume "(v + 31) mod 32 = v mod 32"
  then have "((v + 31) mod 32 + 1) mod 32 = (v mod 32 + 1) mod 32" by simp
  then have "(v + 32) mod 32 = (v + 1) mod 32" by (simp add: mod_simps)
  then show False using succ_bit_pos [of v] by simp
qed

lemma set_bit_twice: "set_bit n (set_bit n w) = set_bit n (w :: u32)"
  by (rule bit_word_eqI) (auto simp: bit_set_bit_iff)

lemma unset_bit_twice: "unset_bit n (unset_bit n w) = unset_bit n (w :: u32)"
  by (rule bit_word_eqI) (auto simp: bit_unset_bit_iff)


section \<open>What each driver function does to the register block\<close>

lemma NVIC_EnableIRQ_eq:
  "NVIC_EnableIRQ i s = s\<lparr>enable_bits := (enable_bits s)
     (IRQn_value i div 32 := set_bit (IRQn_value i mod 32) (enable_bits s (IRQn_value i div 32)))\<rparr>"
  by (simp add: NVIC_EnableIRQ_def write_ISER_def unat_RegNum unat_BitNum set_bit_eq_or)

lemma NVIC_DisableIRQ_eq:
  "NVIC_DisableIRQ i s = s\<lparr>enable_bits := (enable_bits s)
     (IRQn_value i div 32 := unset_bit (IRQn_value i mod 32) (enable_bits s (IRQn_value i div 32)))\<rparr>"
  by (simp add: NVIC_DisableIRQ_def write_ICER_def unat_RegNum unat_BitNum unset_bit_eq_and_not)

lemma NVIC_SetPendingIRQ_eq:
  "NVIC_SetPendingIRQ i s = s\<lparr>pending_bits := (pending_bits s)
     (IRQn_value i div 32 := set_bit (IRQn_value i mod 32) (pending_bits s (IRQn_value i div 32)))\<rparr>"
  by (simp add: NVIC_SetPendingIRQ_def write_ISPR_def unat_RegNum unat_BitNum set_bit_eq_or)

lemma NVIC_ClearPendingIRQ_eq:
  "NVIC_ClearPendingIRQ i s = s\<lparr>pending_bits := (pending_bits s)
     (IRQn_value i div 32 := unset_bit (IRQn_value i mod 32) (pending_bits s (IRQn_value i div 32)))\<rparr>"
  by (simp add: NVIC_ClearPendingIRQ_def write_ICPR_def unat_RegNum unat_BitNum unset_bit_eq_and_not)

lemma NVIC_GetPendingIRQ_eq:
  "NVIC_GetPendingIRQ i s =
     (ucast (pending_bits s (IRQn_value i div 32) AND push_bit (IRQn_value i mod 32) 1), s)"
  by (simp add: NVIC_GetPendingIRQ_def read_ISPR_def unat_RegNum unat_BitNum)

lemma NVIC_GetPriority_eq:
  "NVIC_GetPriority i s =
     (drop_bit ((IRQn_value i mod 4) * 8 + 4) (priority_regs s (IRQn_value i div 4)) AND 0xF, s)"
  by (simp add: NVIC_GetPriority_def read_IPR_def unat_RegIndex unat_PriorityPos_4)

lemma NVIC_SetPriority_above:
  "15 < p \<Longrightarrow> NVIC_SetPriority i p s = s"
  by (simp add: NVIC_SetPriority_def)

lemma NVIC_SetPriority_in_range:
  "p \<le> 15 \<Longrightarrow> NVIC_SetPriority i p s = s\<lparr>priority_regs := (priority_regs s)
     (IRQn_value i div 4 :=
        (priority_regs s (IRQn_value i div 4) AND NOT (push_bit ((IRQn_value i mod 4) * 8) 0xF0))
          OR push_bit ((IRQn_value i mod 4) * 8 + 4) (p AND 0xF))\<rparr>"
  by (simp add: NVIC_SetPriority_def read_IPR_def write_IPR_def unat_RegIndex
      unat_PriorityPos unat_PriorityPos_4 not_less [symmetric])

lemma byte_pos_le: "(IRQn_value i mod 4) * 8 + 8 \<le> 32"
proof -
  have "IRQn_value i mod 4 < 4" by simp
  then show ?thesis by linarith
qed

lemma same_register_other_field:
  assumes "id1 \<noteq> id2" and "IRQn_value id1 div 4 = IRQn_value id2 div 4"
  shows "IRQn_value id1 mod 4 \<noteq> IRQn_value id2 mod 4"
proof
  assume "IRQn_value id1 mod 4 = IRQn_value id2 mod 4"
  with assms(2) have "IRQn_value id1 = IRQn_value id2"
    by (metis div_mult_mod_eq)
  with assms(1) show False by (auto dest: IRQn_value_inj)
qed

lemma NVIC_GetPriority_after_SetPriority_other:
  assumes "id1 \<noteq> id2"
  shows "fst (NVIC_GetPriority id1 (NVIC_SetPriority id2 p2 s)) = fst (NVIC_GetPriority id1 s)"
proof (cases "15 < p2")
  case True
  then show ?thesis by (simp add: NVIC_SetPriority_above)
next
  case False
  then have le: "p2 \<le> 15" by simp
  show ?thesis
  proof (cases "IRQn_value id1 div 4 = IRQn_value id2 div 4")
    case True
    with assms have "IRQn_value id1 mod 4 \<noteq> IRQn_value id2 mod 4"
      by (rule same_register_other_field)
    then show ?thesis
      using True field_read_other [of "IRQn_value id1 mod 4" "IRQn_value id2 mod 4"]
      by (simp add: NVIC_GetPriority_eq NVIC_SetPriority_in_range [OF le] mult.commute)
  next
    case False
    then show ?thesis
      by (simp add: NVIC_GetPriority_eq NVIC_SetPriority_in_range [OF le])
  qed
qed

lemma NVIC_GetPriority_after_SetPriority_same:
  assumes "p \<le> 15"
  shows "fst (NVIC_GetPriority i (NVIC_SetPriority i p s)) = p"
  using field_read_own [OF byte_pos_le assms, of i]
  by (simp add: NVIC_GetPriority_eq NVIC_SetPriority_in_range [OF assms])


lemma ucast_high_bit_lost:
  assumes "8 \<le> n"
  shows "(ucast (w AND push_bit n 1 :: u32) :: u8) = 0"
proof (rule bit_word_eqI)
  fix m assume "m < LENGTH(8)"
  with assms show "bit (ucast (w AND push_bit n 1 :: u32) :: u8) m \<longleftrightarrow> bit (0 :: u8) m"
    by (auto simp: bit_ucast_iff bit_and_iff bit_exp_iff)
qed

lemma NVIC_GetPendingIRQ_high_bit_lost:
  "8 \<le> IRQn_value i mod 32 \<Longrightarrow> fst (NVIC_GetPendingIRQ i s) = 0"
  by (simp only: NVIC_GetPendingIRQ_eq fst_conv ucast_high_bit_lost)

lemma run_call_active_bits: "active_bits (run_call c s) = active_bits s"
  by (cases c)
    (simp_all add: NVIC_EnableIRQ_def NVIC_DisableIRQ_def NVIC_SetPendingIRQ_def
      NVIC_ClearPendingIRQ_def NVIC_GetPendingIRQ_def NVIC_SetPriority_def NVIC_GetPriority_def
      NVIC_GetActive_def write_ISER_def write_ICER_def write_ISPR_def write_ICPR_def
      read_ISPR_def read_IABR_def read_IPR_def write_IPR_def)

section \<open>Properties of the driver\<close>

text \<open>
  C1. The specification's clamp law says that \<open>SetPriority(id, p)\<close> with \<open>p > 15\<close>
  stores 15. The function assigns 15 to its parameter and leaves: the register update is
  in the \<open>else\<close> branch. After a reset, setting the priority of \<open>WWDG\<close> to 16 leaves
  its priority field at 0.
\<close>

theorem NVIC_SetPriority_clamp_not_stored:
  "fst (NVIC_GetPriority WWDG (NVIC_SetPriority WWDG 16 NVIC_reset)) = 0
   \<and> fst (NVIC_GetPriority WWDG (NVIC_SetPriority WWDG 16 NVIC_reset)) \<noteq> 15"
  by (simp add: NVIC_SetPriority_def NVIC_GetPriority_eq NVIC_reset_def)

text \<open>
  C2. \<open>SetPending(id)\<close> followed by \<open>GetPending(id)\<close> is documented to return non-zero.
  The masked word is returned through a \<open>uint8_t\<close>, which drops every bit from position 8
  upwards: for \<open>EXTI2\<close> (identifier 8) the pending bit is set in the register and the
  function returns 0.
\<close>

theorem NVIC_GetPendingIRQ_after_SetPendingIRQ_EXTI2:
  "bit (pending_bits (NVIC_SetPendingIRQ EXTI2 NVIC_reset) 0) 8
   \<and> fst (NVIC_GetPendingIRQ EXTI2 (NVIC_SetPendingIRQ EXTI2 NVIC_reset)) = 0"
  by (simp add: NVIC_SetPendingIRQ_eq NVIC_GetPendingIRQ_eq NVIC_reset_def bit_simps)

text \<open>
  C3. Round trip: for every identifier and every priority \<open>p\<close> from 0 to 15,
  \<open>GetPriority(id)\<close> after \<open>SetPriority(id, p)\<close> returns \<open>p\<close>, whatever the registers
  held before.
\<close>

theorem NVIC_GetPriority_SetPriority_roundtrip:
  "p \<le> 15 \<Longrightarrow> fst (NVIC_GetPriority i (NVIC_SetPriority i p s)) = p"
  by (rule NVIC_GetPriority_after_SetPriority_same)

theorem NVIC_GetPriority_SetPriority_roundtrip_witness:
  "(5 :: u32) \<le> 15 \<and> fst (NVIC_GetPriority EXTI0 (NVIC_SetPriority EXTI0 5 NVIC_reset)) = 5"
  using NVIC_GetPriority_SetPriority_roundtrip [of 5 EXTI0 NVIC_reset] by simp


text \<open>
  C4, as stated for all priorities: \<open>SetPriority(id1, p1)\<close> followed by
  \<open>SetPriority(id2, p2)\<close> leaves \<open>GetPriority(id1) == p1\<close>. \<open>GetPriority\<close> returns a
  4-bit value, so this cannot hold for \<open>p1 > 15\<close>: \<open>WWDG\<close> and \<open>PVD\<close> share priority
  register 0, and after \<open>SetPriority(WWDG, 16)\<close> and \<open>SetPriority(PVD, 3)\<close> the priority
  read for \<open>WWDG\<close> is not 16.
\<close>

theorem NVIC_SetPriority_all_priorities_counterexample:
  "WWDG \<noteq> PVD \<and> IRQn_value WWDG div 4 = IRQn_value PVD div 4
   \<and> fst (NVIC_GetPriority WWDG (NVIC_SetPriority PVD 3 (NVIC_SetPriority WWDG 16 NVIC_reset)))
       \<noteq> 16"
  by (simp add: NVIC_GetPriority_eq NVIC_SetPriority_above NVIC_SetPriority_in_range
      NVIC_reset_def)

text \<open>
  C4, amended: for identifiers \<open>id1 \<noteq> id2\<close> in the same priority register, every
  \<open>p1\<close> from 0 to 15 and every \<open>p2\<close>, \<open>SetPriority(id1, p1)\<close> followed by
  \<open>SetPriority(id2, p2)\<close> leaves \<open>GetPriority(id1) == p1\<close>. The read-modify-write of
  \<open>SetPriority(id2, p2)\<close> does not disturb the other packed fields: the priority read
  for \<open>id1\<close> is what it was before the call, and every bit of the register outside the
  byte of \<open>id2\<close> keeps its value.
\<close>

theorem NVIC_SetPriority_no_crosstalk:
  assumes "id1 \<noteq> id2" and "IRQn_value id1 div 4 = IRQn_value id2 div 4" and "p1 \<le> 15"
  shows "fst (NVIC_GetPriority id1 (NVIC_SetPriority id2 p2 (NVIC_SetPriority id1 p1 s))) = p1
    \<and> fst (NVIC_GetPriority id1 (NVIC_SetPriority id2 p2 s)) = fst (NVIC_GetPriority id1 s)
    \<and> (\<forall>n. n div 8 \<noteq> IRQn_value id2 mod 4 \<longrightarrow>
          bit (priority_regs (NVIC_SetPriority id2 p2 s) (IRQn_value id2 div 4)) n
            = bit (priority_regs s (IRQn_value id2 div 4)) n)"
proof (intro conjI allI impI)
  show "fst (NVIC_GetPriority id1 (NVIC_SetPriority id2 p2 (NVIC_SetPriority id1 p1 s))) = p1"
    using assms(1,3)
    by (simp add: NVIC_GetPriority_after_SetPriority_other
        NVIC_GetPriority_after_SetPriority_same)
  show "fst (NVIC_GetPriority id1 (NVIC_SetPriority id2 p2 s)) = fst (NVIC_GetPriority id1 s)"
    using assms(1) by (rule NVIC_GetPriority_after_SetPriority_other)
next
  fix n
  assume other: "n div 8 \<noteq> IRQn_value id2 mod 4"
  show "bit (priority_regs (NVIC_SetPriority id2 p2 s) (IRQn_value id2 div 4)) n
          = bit (priority_regs s (IRQn_value id2 div 4)) n"
  proof (cases "15 < p2")
    case True
    then show ?thesis by (simp add: NVIC_SetPriority_above)
  next
    case False
    then have le: "p2 \<le> 15" by simp
    have "\<not> (IRQn_value id2 mod 4 * 8 + 4 \<le> n \<and> n < IRQn_value id2 mod 4 * 8 + 8)"
      using other by arith
    then show ?thesis
      unfolding NVIC_SetPriority_in_range [OF le] by (auto simp: bit_field_update simp del: push_bit_and)
  qed
qed

theorem NVIC_SetPriority_no_crosstalk_witness:
  "EXTI0 \<noteq> EXTI1 \<and> IRQn_value EXTI0 div 4 = IRQn_value EXTI1 div 4 \<and> (5 :: u32) \<le> 15
   \<and> fst (NVIC_GetPriority EXTI0 (NVIC_SetPriority EXTI1 10 (NVIC_SetPriority EXTI0 5 NVIC_reset)))
       = 5
   \<and> (16 :: nat) div 8 \<noteq> IRQn_value EXTI1 mod 4
   \<and> bit (priority_regs (NVIC_SetPriority EXTI1 10 NVIC_reset) (IRQn_value EXTI1 div 4)) 16
       = bit (priority_regs NVIC_reset (IRQn_value EXTI1 div 4)) 16"
proof -
  have h1: "EXTI0 \<noteq> EXTI1" by simp
  have h2: "IRQn_value EXTI0 div 4 = IRQn_value EXTI1 div 4" by simp
  have h3: "(5 :: u32) \<le> 15" by simp
  have h4: "(16 :: nat) div 8 \<noteq> IRQn_value EXTI1 mod 4" by simp
  note t = NVIC_SetPriority_no_crosstalk [OF h1 h2 h3, of 10 NVIC_reset]
  from t have a: "fst (NVIC_GetPriority EXTI0
      (NVIC_SetPriority EXTI1 10 (NVIC_SetPriority EXTI0 5 NVIC_reset))) = 5"
    by (rule conjunct1)
  from t have "\<forall>n. n div 8 \<noteq> IRQn_value EXTI1 mod 4 \<longrightarrow>
      bit (priority_regs (NVIC_SetPriority EXTI1 10 NVIC_reset) (IRQn_value EXTI1 div 4)) n
        = bit (priority_regs NVIC_reset (IRQn_value EXTI1 div 4)) n"
    by (rule conjunct2 [THEN conjunct2])
  with h4 have b: "bit (priority_regs (NVIC_SetPriority EXTI1 10 NVIC_reset)
      (IRQn_value EXTI1 div 4)) 16 = bit (priority_regs NVIC_reset (IRQn_value EXTI1 div 4)) 16"
    by blast
  from h1 h2 h3 a h4 b show ?thesis by (intro conjI)
qed

text \<open>
  C5. \<open>Enable(id)\<close> writes exactly \<open>1 << (id % 32)\<close> to the enable array at index
  \<open>id / 32\<close>, \<open>Disable(id)\<close> writes the same word to the disable array. Afterwards the
  enable bit of \<open>id\<close> is set, respectively cleared; every other bit of that register
  (the neighbours \<open>(id \<plusminus> 1) % 32\<close> among them), every other register and the rest of
  the controller are as before.
\<close>

theorem NVIC_EnableIRQ_DisableIRQ_bit:
  "NVIC_EnableIRQ i s = write_ISER (IRQn_value i div 32) (push_bit (IRQn_value i mod 32) 1) s
   \<and> NVIC_DisableIRQ i s = write_ICER (IRQn_value i div 32) (push_bit (IRQn_value i mod 32) 1) s
   \<and> NVIC_EnableIRQ i s = s\<lparr>enable_bits := (enable_bits s)(IRQn_value i div 32 :=
        set_bit (IRQn_value i mod 32) (enable_bits s (IRQn_value i div 32)))\<rparr>
   \<and> NVIC_DisableIRQ i s = s\<lparr>enable_bits := (enable_bits s)(IRQn_value i div 32 :=
        unset_bit (IRQn_value i mod 32) (enable_bits s (IRQn_value i div 32)))\<rparr>
   \<and> (bit (enable_bits (NVIC_EnableIRQ i s) (IRQn_value i div 32)) n
        \<longleftrightarrow> n = IRQn_value i mod 32 \<or> bit (enable_bits s (IRQn_value i div 32)) n)
   \<and> (bit (enable_bits (NVIC_DisableIRQ i s) (IRQn_value i div 32)) n
        \<longleftrightarrow> n \<noteq> IRQn_value i mod 32 \<and> bit (enable_bits s (IRQn_value i div 32)) n)
   \<and> bit (enable_bits (NVIC_EnableIRQ i s) (IRQn_value i div 32)) ((IRQn_value i + 1) mod 32)
        = bit (enable_bits s (IRQn_value i div 32)) ((IRQn_value i + 1) mod 32)
   \<and> bit (enable_bits (NVIC_EnableIRQ i s) (IRQn_value i div 32)) ((IRQn_value i + 31) mod 32)
        = bit (enable_bits s (IRQn_value i div 32)) ((IRQn_value i + 31) mod 32)
   \<and> bit (enable_bits (NVIC_DisableIRQ i s) (IRQn_value i div 32)) ((IRQn_value i + 1) mod 32)
        = bit (enable_bits s (IRQn_value i div 32)) ((IRQn_value i + 1) mod 32)
   \<and> bit (enable_bits (NVIC_DisableIRQ i s) (IRQn_value i div 32)) ((IRQn_value i + 31) mod 32)
        = bit (enable_bits s (IRQn_value i div 32)) ((IRQn_value i + 31) mod 32)"
proof -
  note succ = succ_bit_pos [of "IRQn_value i"]
  note pred = pred_bit_pos [of "IRQn_value i"]
  have set_iff: "bit (enable_bits (NVIC_EnableIRQ i s) (IRQn_value i div 32)) m
        \<longleftrightarrow> m = IRQn_value i mod 32 \<or> bit (enable_bits s (IRQn_value i div 32)) m" for m
    by (auto simp: NVIC_EnableIRQ_eq bit_set_bit_iff)
  have unset_iff: "bit (enable_bits (NVIC_DisableIRQ i s) (IRQn_value i div 32)) m
        \<longleftrightarrow> m \<noteq> IRQn_value i mod 32 \<and> bit (enable_bits s (IRQn_value i div 32)) m" for m
    by (auto simp: NVIC_DisableIRQ_eq bit_unset_bit_iff)
  have w1: "NVIC_EnableIRQ i s
      = write_ISER (IRQn_value i div 32) (push_bit (IRQn_value i mod 32) 1) s"
    by (simp only: NVIC_EnableIRQ_def unat_RegNum unat_BitNum)
  have w2: "NVIC_DisableIRQ i s
      = write_ICER (IRQn_value i div 32) (push_bit (IRQn_value i mod 32) 1) s"
    by (simp only: NVIC_DisableIRQ_def unat_RegNum unat_BitNum)
  show ?thesis
    apply (intro conjI)
             apply (rule w1)
            apply (rule w2)
           apply (rule NVIC_EnableIRQ_eq)
          apply (rule NVIC_DisableIRQ_eq)
         apply (rule set_iff)
        apply (rule unset_iff)
       apply (simp only: set_iff succ simp_thms)
      apply (simp only: set_iff pred simp_thms)
     apply (simp only: unset_iff succ simp_thms)
    apply (simp only: unset_iff pred simp_thms)
    done
qed


text \<open>
  C6. Called with a priority above 15, \<open>SetPriority\<close> writes no register: the
  controller, the priority field of the identifier included, is exactly as before.
\<close>

theorem NVIC_SetPriority_above_15_no_write:
  "15 < p \<Longrightarrow> NVIC_SetPriority i p s = s"
  by (simp add: NVIC_SetPriority_def)

theorem NVIC_SetPriority_above_15_no_write_witness:
  "(15 :: u32) < 16 \<and> NVIC_SetPriority WWDG 16 NVIC_reset = NVIC_reset"
  using NVIC_SetPriority_above_15_no_write [of 16 WWDG NVIC_reset] by simp

text \<open>
  C7. \<open>GetPending\<close>, \<open>GetPriority\<close> and \<open>GetActive\<close> only read: each hands back the
  register block it was given.
\<close>

theorem getters_leave_registers_unchanged:
  "snd (NVIC_GetPendingIRQ i s) = s
   \<and> snd (NVIC_GetPriority i s) = s
   \<and> snd (NVIC_GetActive i s) = s"
  by (simp add: NVIC_GetPendingIRQ_def NVIC_GetPriority_def NVIC_GetActive_def
      read_ISPR_def read_IPR_def read_IABR_def)

text \<open>
  C8. No sequence of driver calls, whatever the identifiers and priorities, changes the
  active bit-array.
\<close>

theorem run_calls_active_bits:
  "active_bits (run_calls cs s) = active_bits s"
proof (induction cs arbitrary: s)
  case Nil
  show ?case by simp
next
  case (Cons c cs)
  have "active_bits (run_calls (c # cs) s) = active_bits (run_call c s)"
    by (simp add: Cons.IH)
  also have "\<dots> = active_bits s"
    by (rule run_call_active_bits)
  finally show ?case .
qed

text \<open>
  C9. \<open>Enable\<close>, \<open>Disable\<close>, \<open>SetPending\<close>, \<open>ClearPending\<close> and \<open>SetPriority\<close> are
  idempotent: the second of two identical calls in a row changes nothing.
\<close>

theorem state_changing_calls_idempotent:
  "NVIC_EnableIRQ i (NVIC_EnableIRQ i s) = NVIC_EnableIRQ i s
   \<and> NVIC_DisableIRQ i (NVIC_DisableIRQ i s) = NVIC_DisableIRQ i s
   \<and> NVIC_SetPendingIRQ i (NVIC_SetPendingIRQ i s) = NVIC_SetPendingIRQ i s
   \<and> NVIC_ClearPendingIRQ i (NVIC_ClearPendingIRQ i s) = NVIC_ClearPendingIRQ i s
   \<and> NVIC_SetPriority i p (NVIC_SetPriority i p s) = NVIC_SetPriority i p s"
proof (intro conjI)
  show "NVIC_EnableIRQ i (NVIC_EnableIRQ i s) = NVIC_EnableIRQ i s"
    by (simp add: NVIC_EnableIRQ_eq set_bit_twice)
  show "NVIC_DisableIRQ i (NVIC_DisableIRQ i s) = NVIC_DisableIRQ i s"
    by (simp add: NVIC_DisableIRQ_eq unset_bit_twice)
  show "NVIC_SetPendingIRQ i (NVIC_SetPendingIRQ i s) = NVIC_SetPendingIRQ i s"
    by (simp add: NVIC_SetPendingIRQ_eq set_bit_twice)
  show "NVIC_ClearPendingIRQ i (NVIC_ClearPendingIRQ i s) = NVIC_ClearPendingIRQ i s"
    by (simp add: NVIC_ClearPendingIRQ_eq unset_bit_twice)
  show "NVIC_SetPriority i p (NVIC_SetPriority i p s) = NVIC_SetPriority i p s"
  proof (cases "15 < p")
    case True
    then show ?thesis by (simp add: NVIC_SetPriority_above)
  next
    case False
    then have le: "p \<le> 15" by simp
    show ?thesis
      unfolding NVIC_SetPriority_in_range [OF le]
      by (simp add: field_update_idem del: push_bit_and)
  qed
qed

text \<open>
  C10. The largest value of the enumeration is 96, so for every enumerator the index
  into the bit-array registers, \<open>id / 32\<close>, is at most 3 and the index into the
  priority registers, \<open>id / 4\<close>, is at most 24. The casts to \<open>uint8_t\<close> lose nothing.
\<close>

theorem register_indices_in_bounds:
  "IRQn_value i \<le> 96 \<and> IRQn_value FMPI2C1_error = 96
   \<and> unat (RegNum i) = IRQn_value i div 32 \<and> unat (RegNum i) \<le> 3
   \<and> unat (RegIndex i) = IRQn_value i div 4 \<and> unat (RegIndex i) \<le> 24"
proof -
  have le: "IRQn_value i \<le> 96" by (rule IRQn_value_le)
  then have "IRQn_value i div 32 \<le> 3" and "IRQn_value i div 4 \<le> 24" by linarith+
  with le show ?thesis by (simp add: unat_RegNum unat_RegIndex)
qed


end
